theory Spec2Isabelle
  imports Complex_Main
begin

section \<open>The data of binance-oco.js\<close>

text \<open>
  The script keeps its prices and quantities as \<^verbatim>\<open>BigNumber\<close> values. The operations
  it applies to them (\<^verbatim>\<open>plus\<close>, \<^verbatim>\<open>minus\<close>, \<^verbatim>\<open>times\<close> and the comparisons) are exact on
  finite values, so a finite \<^verbatim>\<open>BigNumber\<close> is a rational number here (the strings that
  the script reads are taken to be numerals; NaN is not modelled). An option stands
  for a command line option that may be absent (\<^verbatim>\<open>undefined\<close> or the empty string, both
  falsy in JavaScript; once normalised a given option is a \<^verbatim>\<open>BigNumber\<close> object, which
  is truthy whatever its value).
\<close>

record config =
  pair :: string
  amount :: rat
  scaleOutAmount :: "rat option"
  buyPrice :: "rat option"
  buyLimitPrice :: "rat option"
  stopPrice :: "rat option"
  limitPrice :: "rat option"
  targetPrice :: "rat option"
  cancelPrice :: "rat option"
  nonBnbFees :: bool

text \<open>
  The mutable variables of the closure. Order ids are numbers with 0 for "no order"
  (\<^verbatim>\<open>if (buyOrderId)\<close> tests for non-zero). \<open>feeRecalcs\<close> is not a variable of the
  script: it counts the runs of \<^verbatim>\<open>calculateStopAndTargetAmounts\<close>, is written by that
  function only and is never read by the model.
\<close>

record state =
  stopSellAmount :: rat
  targetSellAmount :: rat
  stopOrderId :: nat
  targetOrderId :: nat
  buyOrderId :: nat
  isLimitEntry :: bool
  isStopEntry :: bool
  isCancelling :: bool
  feeRecalcs :: nat

text \<open>The three cancel requests of the trade handler, told apart by their callbacks.\<close>

datatype role = ENTRY | STOP | TARGET

text \<open>
  What a handler asks of the outside: the exchange calls (\<open>Buy\<close> and \<open>Sell\<close> carry the
  quantity, the limit price, the \<^verbatim>\<open>stopPrice\<close> option and the order type), the Telegram
  message and the error log.
\<close>

datatype effect =
    MarketBuy rat
  | Buy rat rat "rat option" string
  | Sell rat rat "rat option" string
  | Cancel role nat
  | Prices
  | SendMessage string
  | ConsoleError string

text \<open>
  \<^verbatim>\<open>process.exit(n)\<close> ends the process with code \<open>n\<close> (\<^verbatim>\<open>process.exit()\<close> with 0); a
  method call on \<^verbatim>\<open>undefined\<close> throws a \<^verbatim>\<open>TypeError\<close> that nothing catches.
\<close>

datatype halt = Exit nat | TypeError

record outcome =
  st :: state
  effs :: "effect list"
  halted :: "halt option"

definition proceed :: "state \<Rightarrow> effect list \<Rightarrow> outcome" where
  "proceed s es = \<lparr>st = s, effs = es, halted = None\<rparr>"

definition stop_with :: "state \<Rightarrow> effect list \<Rightarrow> halt \<Rightarrow> outcome" where
  "stop_with s es h = \<lparr>st = s, effs = es, halted = Some h\<rparr>"

definition after :: "effect list \<Rightarrow> outcome \<Rightarrow> outcome" where
  "after es r = r\<lparr>effs := es @ effs r\<rparr>"

text \<open>The argument pair \<^verbatim>\<open>(error, response)\<close> of a callback.\<close>

datatype 'a reply = Failure | Success 'a

text \<open>A comparison with \<^verbatim>\<open>undefined\<close> is a comparison with NaN, which is false.\<close>

definition isGreaterThanOrEqualTo :: "rat \<Rightarrow> rat option \<Rightarrow> bool" where
  "isGreaterThanOrEqualTo p q = (case q of None \<Rightarrow> False | Some v \<Rightarrow> v \<le> p)"

definition isLessThanOrEqualTo :: "rat \<Rightarrow> rat option \<Rightarrow> bool" where
  "isLessThanOrEqualTo p q = (case q of None \<Rightarrow> False | Some v \<Rightarrow> p \<le> v)"

section \<open>Quantity conformance\<close>

text \<open>
  Modelled from the spec: \<^verbatim>\<open>binance.roundStep\<close> belongs to the exchange library, which is
  not part of the sources. The specification says that it "rounds rawQuantity down to the
  nearest multiple of stepSize".
\<close>

definition roundStep :: "rat \<Rightarrow> rat \<Rightarrow> rat" where
  "roundStep qty stepSize = of_int \<lfloor>qty / stepSize\<rfloor> * stepSize"

text \<open>
  \<^verbatim>\<open>munge_and_check_quantity\<close>, over any rounding function: below \<open>minQty\<close> it logs and
  exits with code 1, the specification's ConformanceError.
\<close>

definition munge_and_check_quantity_by ::
  "(rat \<Rightarrow> rat \<Rightarrow> rat) \<Rightarrow> rat \<Rightarrow> rat \<Rightarrow> rat \<Rightarrow> halt + rat" where
  "munge_and_check_quantity_by rounder stepSize minQty volume =
     (let volume' = rounder volume stepSize
      in if volume' < minQty then Inl (Exit 1) else Inr volume')"

definition munge_and_check_quantity :: "rat \<Rightarrow> rat \<Rightarrow> rat \<Rightarrow> halt + rat" where
  "munge_and_check_quantity = munge_and_check_quantity_by roundStep"

section \<open>Fee adjustment and order placement\<close>

definition NON_BNB_TRADING_FEE :: rat where
  "NON_BNB_TRADING_FEE = 1 / 1000"

definition calculateSellAmount :: "config \<Rightarrow> string \<Rightarrow> rat \<Rightarrow> rat" where
  "calculateSellAmount cfg commissionAsset sellAmount =
     (if commissionAsset = ''BNB'' \<and> \<not> nonBnbFees cfg then sellAmount
      else sellAmount * (1 - NON_BNB_TRADING_FEE))"

definition calculateStopAndTargetAmounts :: "config \<Rightarrow> string \<Rightarrow> state \<Rightarrow> state" where
  "calculateStopAndTargetAmounts cfg commissionAsset s =
     s\<lparr>stopSellAmount := calculateSellAmount cfg commissionAsset (stopSellAmount s),
       targetSellAmount := calculateSellAmount cfg commissionAsset (targetSellAmount s),
       feeRecalcs := Suc (feeRecalcs s)\<rparr>"

definition sellComplete :: "config \<Rightarrow> state \<Rightarrow> (nat \<times> string) reply \<Rightarrow> outcome" where
  "sellComplete cfg s r =
     (case r of
        Failure \<Rightarrow> stop_with s [ConsoleError ''Sell error''] (Exit 1)
      | Success (orderId, type) \<Rightarrow>
          if \<not> (stopPrice cfg \<noteq> None \<and> targetPrice cfg \<noteq> None) then stop_with s [] (Exit 0)
          else if type = ''STOP_LOSS_LIMIT''
            then proceed (s\<lparr>stopOrderId := orderId\<rparr>) [SendMessage (pair cfg @ '' stopped out'')]
          else if type = ''LIMIT''
            then proceed (s\<lparr>targetOrderId := orderId\<rparr>)
                   [SendMessage (pair cfg @ '' hit target price'')]
          else proceed s [])"

definition placeStopOrder :: "config \<Rightarrow> state \<Rightarrow> outcome" where
  "placeStopOrder cfg s =
     (case stopPrice cfg of
        None \<Rightarrow> stop_with s [] TypeError
      | Some sp \<Rightarrow>
          proceed s
            [Sell (stopSellAmount s) (case limitPrice cfg of Some l \<Rightarrow> l | None \<Rightarrow> sp) (Some sp)
               ''STOP_LOSS_LIMIT''])"

definition placeTargetOrder :: "config \<Rightarrow> state \<Rightarrow> outcome" where
  "placeTargetOrder cfg s =
     (case targetPrice cfg of
        None \<Rightarrow> stop_with s [] TypeError
      | Some tp \<Rightarrow>
          if stopPrice cfg \<noteq> None \<and> targetSellAmount s \<noteq> stopSellAmount s
          then after [Sell (targetSellAmount s) tp None ''LIMIT'']
                 (placeStopOrder cfg
                    (s\<lparr>stopSellAmount := stopSellAmount s - targetSellAmount s\<rparr>))
          else proceed s [Sell (targetSellAmount s) tp None ''LIMIT''])"

definition placeSellOrder :: "config \<Rightarrow> state \<Rightarrow> outcome" where
  "placeSellOrder cfg s =
     (if stopPrice cfg \<noteq> None then placeStopOrder cfg s
      else if targetPrice cfg \<noteq> None then placeTargetOrder cfg s
      else stop_with s [] (Exit 0))"

text \<open>
  The response of a buy: order id, status and the commission asset of the first fill (read
  from a FILLED response only).
\<close>

definition buyComplete :: "config \<Rightarrow> state \<Rightarrow> (nat \<times> string \<times> string) reply \<Rightarrow> outcome" where
  "buyComplete cfg s r =
     (case r of
        Failure \<Rightarrow> stop_with s [ConsoleError ''Buy error''] (Exit 1)
      | Success (orderId, status, commissionAsset) \<Rightarrow>
          if status = ''FILLED''
          then after [SendMessage (pair cfg @ '' filled buy order'')]
                 (placeSellOrder cfg (calculateStopAndTargetAmounts cfg commissionAsset s))
          else proceed (s\<lparr>buyOrderId := orderId\<rparr>) [])"

section \<open>Entry placement\<close>

definition initialState :: "config \<Rightarrow> state" where
  "initialState cfg =
     \<lparr>stopSellAmount = amount cfg,
      targetSellAmount = (case scaleOutAmount cfg of Some a \<Rightarrow> a | None \<Rightarrow> amount cfg),
      stopOrderId = 0, targetOrderId = 0, buyOrderId = 0,
      isLimitEntry = False, isStopEntry = False, isCancelling = False, feeRecalcs = 0\<rparr>"

text \<open>The dispatch on \<^verbatim>\<open>buyPrice\<close> that the script runs once, after normalisation.\<close>

definition placeEntry :: "config \<Rightarrow> state \<Rightarrow> outcome" where
  "placeEntry cfg s =
     (case buyPrice cfg of
        None \<Rightarrow> placeSellOrder cfg s
      | Some b \<Rightarrow>
          if b = 0 then proceed s [MarketBuy (amount cfg)]
          else if 0 < b then proceed s [Prices]
          else placeSellOrder cfg s)"

text \<open>
  The callback of \<^verbatim>\<open>binance.prices\<close>, for a ticker that holds the pair's price. It is
  registered only when \<^verbatim>\<open>buyPrice\<close> is a positive number.
\<close>

definition pricesCallback :: "config \<Rightarrow> state \<Rightarrow> rat \<Rightarrow> outcome" where
  "pricesCallback cfg s currentPrice =
     (case buyPrice cfg of
        None \<Rightarrow> stop_with s [] TypeError
      | Some b \<Rightarrow>
          if currentPrice < b
          then proceed (s\<lparr>isStopEntry := True\<rparr>)
                 [Buy (amount cfg) (case buyLimitPrice cfg of Some l \<Rightarrow> l | None \<Rightarrow> b) (Some b)
                    ''STOP_LOSS_LIMIT'']
          else proceed (s\<lparr>isLimitEntry := True\<rparr>) [Buy (amount cfg) b None ''LIMIT''])"

section \<open>The price stream\<close>

definition tradesHandler :: "config \<Rightarrow> state \<Rightarrow> rat \<Rightarrow> outcome" where
  "tradesHandler cfg s price =
     (if buyOrderId s \<noteq> 0 then
        (case cancelPrice cfg of
           None \<Rightarrow> proceed s []
         | Some c \<Rightarrow>
             if ((isStopEntry s \<and> price \<le> c) \<or> (isLimitEntry s \<and> c \<le> price))
                \<and> \<not> isCancelling s
             then proceed (s\<lparr>isCancelling := True\<rparr>) [Cancel ENTRY (buyOrderId s)]
             else proceed s [])
      else if stopOrderId s \<noteq> 0 \<or> targetOrderId s \<noteq> 0 then
        (if stopOrderId s \<noteq> 0 \<and> \<not> targetOrderId s \<noteq> 0
            \<and> isGreaterThanOrEqualTo price (targetPrice cfg) \<and> \<not> isCancelling s
         then proceed (s\<lparr>isCancelling := True\<rparr>) [Cancel STOP (stopOrderId s)]
         else if targetOrderId s \<noteq> 0 \<and> \<not> stopOrderId s \<noteq> 0
            \<and> isLessThanOrEqualTo price (stopPrice cfg) \<and> \<not> isCancelling s
         then proceed (s\<lparr>isCancelling := True\<rparr>) [Cancel TARGET (targetOrderId s)]
         else proceed s [])
      else proceed s [])"

text \<open>The callbacks of the three cancel requests; \<open>Failure\<close> is a call with an error.\<close>

definition cancelCallback :: "config \<Rightarrow> role \<Rightarrow> state \<Rightarrow> unit reply \<Rightarrow> outcome" where
  "cancelCallback cfg rl s r =
     (let s1 = s\<lparr>isCancelling := False\<rparr> in
      case r of
        Failure \<Rightarrow> proceed s1 [ConsoleError ''cancel error'']
      | Success _ \<Rightarrow>
          (case rl of
             ENTRY \<Rightarrow> stop_with s1 [] (Exit 0)
           | STOP \<Rightarrow> placeTargetOrder cfg (s1\<lparr>stopOrderId := 0\<rparr>)
           | TARGET \<Rightarrow>
               (let s2 = s1\<lparr>targetOrderId := 0\<rparr>;
                    s3 = (if targetSellAmount s2 \<noteq> stopSellAmount s2
                          then s2\<lparr>stopSellAmount := stopSellAmount s2 + targetSellAmount s2\<rparr>
                          else s2)
                in placeStopOrder cfg s3)))"

section \<open>The order stream\<close>

text \<open>
  \<^verbatim>\<open>checkOrderFilled\<close> reads the status of the event; \<open>orderFilled\<close> is what its callback
  would do.
\<close>

definition checkOrderFilled :: "state \<Rightarrow> string \<Rightarrow> outcome \<Rightarrow> outcome" where
  "checkOrderFilled s orderStatus orderFilled =
     (if orderStatus = ''NEW'' \<or> orderStatus = ''PARTIALLY_FILLED'' then proceed s []
      else if orderStatus \<noteq> ''FILLED'' then stop_with s [] (Exit 1)
      else orderFilled)"

definition buyFilled :: "config \<Rightarrow> state \<Rightarrow> string \<Rightarrow> outcome" where
  "buyFilled cfg s commissionAsset =
     placeSellOrder cfg (calculateStopAndTargetAmounts cfg commissionAsset (s\<lparr>buyOrderId := 0\<rparr>))"

definition sellFilled :: "state \<Rightarrow> outcome" where
  "sellFilled s = stop_with s [] (Exit 0)"

text \<open>An execution report: order id (\<^verbatim>\<open>i\<close>), status (\<^verbatim>\<open>X\<close>), commission asset (\<^verbatim>\<open>N\<close>).\<close>

definition userDataHandler :: "config \<Rightarrow> state \<Rightarrow> nat \<Rightarrow> string \<Rightarrow> string \<Rightarrow> outcome" where
  "userDataHandler cfg s orderId orderStatus commissionAsset =
     (if orderId = buyOrderId s
        then checkOrderFilled s orderStatus (buyFilled cfg s commissionAsset)
      else if orderId = stopOrderId s then checkOrderFilled s orderStatus (sellFilled s)
      else if orderId = targetOrderId s then checkOrderFilled s orderStatus (sellFilled s)
      else proceed s [])"

section \<open>The event loop\<close>

datatype event =
    Trade rat
  | UserData nat string string
  | PricesReply rat
  | BuyReply "(nat \<times> string \<times> string) reply"
  | SellReply "(nat \<times> string) reply"
  | CancelReply role "unit reply"

definition step :: "config \<Rightarrow> state \<Rightarrow> event \<Rightarrow> outcome" where
  "step cfg s e =
     (case e of
        Trade price \<Rightarrow> tradesHandler cfg s price
      | UserData orderId orderStatus commissionAsset \<Rightarrow>
          userDataHandler cfg s orderId orderStatus commissionAsset
      | PricesReply currentPrice \<Rightarrow> pricesCallback cfg s currentPrice
      | BuyReply r \<Rightarrow> buyComplete cfg s r
      | SellReply r \<Rightarrow> sellComplete cfg s r
      | CancelReply rl r \<Rightarrow> cancelCallback cfg rl s r)"

text \<open>Events are handled one at a time, and none after the process has ended.\<close>

fun run :: "config \<Rightarrow> state \<Rightarrow> event list \<Rightarrow> outcome" where
  "run cfg s [] = proceed s []"
| "run cfg s (e # es) =
     (let r = step cfg s e
      in case halted r of Some h \<Rightarrow> r | None \<Rightarrow> after (effs r) (run cfg (st r) es))"

text \<open>
  A whole trade: the entry dispatch on the initial state, then the events in the order of
  their arrival.
\<close>

definition trade :: "config \<Rightarrow> event list \<Rightarrow> outcome" where
  "trade cfg es =
     (let r = placeEntry cfg (initialState cfg)
      in case halted r of Some h \<Rightarrow> r | None \<Rightarrow> after (effs r) (run cfg (st r) es))"

section \<open>Vocabulary of the properties\<close>

text \<open>The requests that open a position or prepare one.\<close>

fun isEntryRequest :: "effect \<Rightarrow> bool" where
  "isEntryRequest (MarketBuy q) = True"
| "isEntryRequest (Buy q p sp ty) = True"
| "isEntryRequest Prices = True"
| "isEntryRequest e = False"

text \<open>
  The script places one buy order at most, so its callback runs once at most; and 0 is
  the script's mark for "no order", so the execution report of an order carries another
  id.
\<close>

fun buyReplies :: "event list \<Rightarrow> nat" where
  "buyReplies [] = 0"
| "buyReplies (BuyReply r # es) = Suc (buyReplies es)"
| "buyReplies (e # es) = buyReplies es"

fun nonZeroOrderId :: "event \<Rightarrow> bool" where
  "nonZeroOrderId (UserData orderId orderStatus commissionAsset) = (orderId \<noteq> 0)"
| "nonZeroOrderId e = True"

text \<open>
  The fee recalculations that a state has seen or can still see: those done, one for an
  outstanding entry order, one for each buy response to come.
\<close>

definition feeBudget :: "state \<Rightarrow> event list \<Rightarrow> nat" where
  "feeBudget s es = feeRecalcs s + (if buyOrderId s \<noteq> 0 then 1 else 0) + buyReplies es"

section \<open>Sample trades\<close>

text \<open>
  The trade of the script's usage text, with a scale-out of 4 out of 10 and a cancel
  price: \<^verbatim>\<open>-p BNBBTC -a 10 -S 4 -b 0.002 -s 0.001 -t 0.003 -c 0.0017\<close>.
\<close>

definition exampleConfig :: config where
  "exampleConfig =
     \<lparr>pair = ''BNBBTC'', amount = 10, scaleOutAmount = Some 4, buyPrice = Some (2 / 1000),
      buyLimitPrice = None, stopPrice = Some (1 / 1000), limitPrice = None,
      targetPrice = Some (3 / 1000), cancelPrice = Some (17 / 10000), nonBnbFees = False\<rparr>"

definition entryResting :: state where
  "entryResting = (initialState exampleConfig)\<lparr>buyOrderId := 7, isStopEntry := True\<rparr>"

definition stopResting :: state where
  "stopResting = (initialState exampleConfig)\<lparr>stopOrderId := 11\<rparr>"

definition bothResting :: state where
  "bothResting = (initialState exampleConfig)\<lparr>stopOrderId := 11, targetOrderId := 12\<rparr>"

text \<open>The same position protected by a stop order only: \<^verbatim>\<open>-p BNBBTC -a 10 -s 0.001\<close>.\<close>

definition stopOnlyConfig :: config where
  "stopOnlyConfig =
     \<lparr>pair = ''BNBBTC'', amount = 10, scaleOutAmount = None, buyPrice = None,
      buyLimitPrice = None, stopPrice = Some (1 / 1000), limitPrice = None,
      targetPrice = None, cancelPrice = None, nonBnbFees = False\<rparr>"

text \<open>
  The entry of the first sample trade: a stop entry above the market, filled with the fee
  in BTC; the fill is reported twice.
\<close>

definition entryEvents :: "event list" where
  "entryEvents =
     [PricesReply (18 / 10000), BuyReply (Success (7, ''NEW'', ''BTC'')),
      UserData 7 ''FILLED'' ''BTC'', UserData 7 ''FILLED'' ''BTC'']"

text \<open>
  A position of 10 already held, half of it to be sold at the target:
  \<^verbatim>\<open>-p BNBBTC -a 10 -S 5 -s 0.001 -t 0.003\<close>. The stop order rests, the price reaches
  the target, the stop is cancelled and both legs are placed; the price falls to the stop
  when only the target's response has arrived, and the target is cancelled.
\<close>

definition halfConfig :: config where
  "halfConfig =
     \<lparr>pair = ''BNBBTC'', amount = 10, scaleOutAmount = Some 5, buyPrice = None,
      buyLimitPrice = None, stopPrice = Some (1 / 1000), limitPrice = None,
      targetPrice = Some (3 / 1000), cancelPrice = None, nonBnbFees = False\<rparr>"

definition halfEvents :: "event list" where
  "halfEvents =
     [SellReply (Success (11, ''STOP_LOSS_LIMIT'')), Trade (3 / 1000),
      CancelReply STOP (Success ()), SellReply (Success (12, ''LIMIT'')), Trade (1 / 1000),
      CancelReply TARGET (Success ())]"

section \<open>Basic facts\<close>

lemma st_proceed: "st (proceed s es) = s"
  by (simp add: proceed_def)

lemma st_stop_with: "st (stop_with s es h) = s"
  by (simp add: stop_with_def)

lemma st_after: "st (after es r) = st r"
  by (simp add: after_def)

lemma placeStopOrder_st: "st (placeStopOrder cfg s) = s"
  by (simp add: placeStopOrder_def st_proceed st_stop_with split: option.splits)

lemmas st_simps = st_proceed st_stop_with st_after placeStopOrder_st

text \<open>All the definitions of the handlers, to run them on a sample trade.\<close>

lemmas handler_defs =
  trade_def placeEntry_def initialState_def step_def tradesHandler_def userDataHandler_def
  checkOrderFilled_def buyFilled_def sellFilled_def pricesCallback_def buyComplete_def
  sellComplete_def cancelCallback_def placeSellOrder_def placeStopOrder_def
  placeTargetOrder_def calculateStopAndTargetAmounts_def calculateSellAmount_def
  NON_BNB_TRADING_FEE_def proceed_def stop_with_def after_def isGreaterThanOrEqualTo_def
  isLessThanOrEqualTo_def

section \<open>The price stream before and after the fill\<close>

text \<open>
  Claim C1, as the code has it. The handler cancels a sell order only when the other one is
  not outstanding (\<^verbatim>\<open>stopOrderId && !targetOrderId\<close>, \<^verbatim>\<open>targetOrderId && !stopOrderId\<close>):
  with no entry order outstanding and no cancel in flight, a tick at or above the target
  price cancels the stop order when the stop order alone is outstanding, a tick at or below
  the stop price cancels the target order when the target order alone is outstanding, a
  tick with both orders outstanding cancels nothing, a tick strictly between the two prices
  cancels nothing, and no tick issues more than one request.
\<close>

theorem mutual_cancellation_one_leg_outstanding:
  assumes "buyOrderId s = 0" and "\<not> isCancelling s"
    and "stopPrice cfg = Some sp" and "targetPrice cfg = Some tp"
  shows "(stopOrderId s \<noteq> 0 \<and> targetOrderId s = 0 \<and> tp \<le> price \<longrightarrow>
            tradesHandler cfg s price =
              proceed (s\<lparr>isCancelling := True\<rparr>) [Cancel STOP (stopOrderId s)])
       \<and> (targetOrderId s \<noteq> 0 \<and> stopOrderId s = 0 \<and> price \<le> sp \<longrightarrow>
            tradesHandler cfg s price =
              proceed (s\<lparr>isCancelling := True\<rparr>) [Cancel TARGET (targetOrderId s)])
       \<and> (stopOrderId s \<noteq> 0 \<and> targetOrderId s \<noteq> 0 \<longrightarrow>
            tradesHandler cfg s price = proceed s [])
       \<and> (sp < price \<and> price < tp \<longrightarrow> tradesHandler cfg s price = proceed s [])
       \<and> length (effs (tradesHandler cfg s price)) \<le> 1"
  using assms
  by (simp add: tradesHandler_def proceed_def isGreaterThanOrEqualTo_def
      isLessThanOrEqualTo_def)

text \<open>The stop order of the sample trade alone, and a tick at the target price.\<close>

theorem mutual_cancellation_witness:
  "tradesHandler exampleConfig stopResting (3 / 1000) =
     proceed (stopResting\<lparr>isCancelling := True\<rparr>) [Cancel STOP 11]
   \<and> tradesHandler exampleConfig stopResting (2 / 1000) = proceed stopResting []"
proof -
  have a: "buyOrderId stopResting = 0" and b: "\<not> isCancelling stopResting"
    by (simp_all add: stopResting_def initialState_def)
  have c: "stopPrice exampleConfig = Some (1 / 1000)"
    and d: "targetPrice exampleConfig = Some (3 / 1000)"
    by (simp_all add: exampleConfig_def)
  have e: "stopOrderId stopResting = 11" and f: "targetOrderId stopResting = 0"
    by (simp_all add: stopResting_def initialState_def)
  from mutual_cancellation_one_leg_outstanding [OF a b c d, of "3 / 1000"]
    mutual_cancellation_one_leg_outstanding [OF a b c d, of "2 / 1000"] e f
  show ?thesis by simp
qed

text \<open>
  Claim C1 as it is written fails: with the stop order and the target order both
  outstanding and no cancel in flight, a tick at the target price cancels nothing.
\<close>

theorem both_outstanding_tick_at_target_cancels_nothing:
  "stopOrderId bothResting \<noteq> 0 \<and> targetOrderId bothResting \<noteq> 0
   \<and> \<not> isCancelling bothResting \<and> buyOrderId bothResting = 0
   \<and> isGreaterThanOrEqualTo (3 / 1000) (targetPrice exampleConfig)
   \<and> Cancel STOP (stopOrderId bothResting)
        \<notin> set (effs (tradesHandler exampleConfig bothResting (3 / 1000)))
   \<and> tradesHandler exampleConfig bothResting (3 / 1000) = proceed bothResting []"
  by (simp add: bothResting_def initialState_def exampleConfig_def tradesHandler_def
      isGreaterThanOrEqualTo_def proceed_def)

text \<open>
  Claim C3: with the entry order outstanding, a cancel price set and no cancel in flight, a
  tick requests the cancellation of the entry order exactly when the entry is a stop entry
  and the price is at or below the cancel price, or a limit entry and the price is at or
  above it. The request is for the entry order, and the guard is set with it.
\<close>

theorem entry_cancel_iff:
  assumes "buyOrderId s \<noteq> 0" and "cancelPrice cfg = Some c" and "\<not> isCancelling s"
  shows "tradesHandler cfg s price =
     (if (isStopEntry s \<and> price \<le> c) \<or> (isLimitEntry s \<and> c \<le> price)
      then proceed (s\<lparr>isCancelling := True\<rparr>) [Cancel ENTRY (buyOrderId s)]
      else proceed s [])"
  using assms by (simp add: tradesHandler_def)

text \<open>
  The stop entry of the sample trade: a tick at the cancel price cancels it, a tick above
  the cancel price does not.
\<close>

theorem entry_cancel_witness:
  "tradesHandler exampleConfig entryResting (17 / 10000) =
     proceed (entryResting\<lparr>isCancelling := True\<rparr>) [Cancel ENTRY 7]
   \<and> tradesHandler exampleConfig entryResting (18 / 10000) = proceed entryResting []"
proof -
  have a: "buyOrderId entryResting \<noteq> 0" and b: "\<not> isCancelling entryResting"
    by (simp_all add: entryResting_def initialState_def)
  have c: "cancelPrice exampleConfig = Some (17 / 10000)"
    by (simp add: exampleConfig_def)
  have d: "isStopEntry entryResting" and e: "\<not> isLimitEntry entryResting"
    and f: "buyOrderId entryResting = 7"
    by (simp_all add: entryResting_def initialState_def)
  from entry_cancel_iff [OF a c b, of "17 / 10000"] entry_cancel_iff [OF a c b, of "18 / 10000"]
    d e f
  show ?thesis by simp
qed

section \<open>The fee recalculation\<close>

text \<open>
  Only \<^verbatim>\<open>buyComplete\<close> and the fill of the entry order reach
  \<^verbatim>\<open>calculateStopAndTargetAmounts\<close>; no other handler touches the entry order id.
\<close>

lemma placeTargetOrder_fee:
  "feeRecalcs (st (placeTargetOrder cfg s)) = feeRecalcs s"
  "buyOrderId (st (placeTargetOrder cfg s)) = buyOrderId s"
  by (simp_all add: placeTargetOrder_def st_simps split: option.splits)

lemma placeSellOrder_fee:
  "feeRecalcs (st (placeSellOrder cfg s)) = feeRecalcs s"
  "buyOrderId (st (placeSellOrder cfg s)) = buyOrderId s"
  by (simp_all add: placeSellOrder_def placeTargetOrder_fee st_simps)

lemma tradesHandler_fee:
  "feeRecalcs (st (tradesHandler cfg s p)) = feeRecalcs s"
  "buyOrderId (st (tradesHandler cfg s p)) = buyOrderId s"
  by (simp_all add: tradesHandler_def st_simps split: option.splits)

lemma cancelCallback_fee:
  "feeRecalcs (st (cancelCallback cfg rl s r)) = feeRecalcs s"
  "buyOrderId (st (cancelCallback cfg rl s r)) = buyOrderId s"
  by (simp_all add: cancelCallback_def Let_def placeTargetOrder_fee st_simps
      split: reply.splits role.splits)

lemma sellComplete_fee:
  "feeRecalcs (st (sellComplete cfg s r)) = feeRecalcs s"
  "buyOrderId (st (sellComplete cfg s r)) = buyOrderId s"
  by (simp_all add: sellComplete_def st_simps split: reply.splits prod.splits)

lemma pricesCallback_fee:
  "feeRecalcs (st (pricesCallback cfg s p)) = feeRecalcs s"
  "buyOrderId (st (pricesCallback cfg s p)) = buyOrderId s"
  by (simp_all add: pricesCallback_def st_simps split: option.splits)

lemma placeEntry_fee:
  "feeRecalcs (st (placeEntry cfg s)) = feeRecalcs s"
  "buyOrderId (st (placeEntry cfg s)) = buyOrderId s"
  by (simp_all add: placeEntry_def placeSellOrder_fee st_simps split: option.splits)

lemmas fee_simps =
  placeTargetOrder_fee placeSellOrder_fee tradesHandler_fee cancelCallback_fee
  sellComplete_fee pricesCallback_fee placeEntry_fee

text \<open>The fill of the entry order leaves the state that the recalculation made.\<close>

lemma buyFilled_st:
  "st (buyFilled cfg s commissionAsset) =
     calculateStopAndTargetAmounts cfg commissionAsset (s\<lparr>buyOrderId := 0\<rparr>)"
  by (simp add: buyFilled_def placeSellOrder_def placeTargetOrder_def st_simps
      split: option.splits)

lemma userData_budget:
  "orderId \<noteq> 0 \<Longrightarrow>
   feeBudget (st (userDataHandler cfg s orderId orderStatus commissionAsset)) es
     \<le> feeBudget s es"
  by (simp add: userDataHandler_def checkOrderFilled_def buyFilled_def sellFilled_def
      calculateStopAndTargetAmounts_def feeBudget_def fee_simps st_simps)

lemma buyComplete_budget:
  "feeBudget (st (buyComplete cfg s r)) es \<le> feeBudget s (BuyReply r # es)"
  by (simp add: buyComplete_def calculateStopAndTargetAmounts_def feeBudget_def fee_simps
      st_simps split: reply.splits prod.splits)

lemma step_budget:
  "nonZeroOrderId e \<Longrightarrow> feeBudget (st (step cfg s e)) es \<le> feeBudget s (e # es)"
proof (cases e)
  case (UserData i x n)
  assume "nonZeroOrderId e"
  with UserData userData_budget [of i cfg s x n es] show ?thesis
    by (simp add: step_def feeBudget_def)
next
  case (BuyReply r)
  with buyComplete_budget [of cfg s r es] show ?thesis
    by (simp add: step_def)
qed (simp_all add: step_def feeBudget_def fee_simps)

lemma run_budget:
  "list_all nonZeroOrderId es \<Longrightarrow> feeRecalcs (st (run cfg s es)) \<le> feeBudget s es"
proof (induction es arbitrary: s)
  case Nil
  show ?case by (simp add: feeBudget_def st_simps)
next
  case (Cons e es)
  from Cons.prems have e: "nonZeroOrderId e" and es: "list_all nonZeroOrderId es"
    by simp_all
  have le: "feeBudget (st (step cfg s e)) es \<le> feeBudget s (e # es)"
    using e by (rule step_budget)
  show ?case
  proof (cases "halted (step cfg s e)")
    case None
    with Cons.IH [OF es, of "st (step cfg s e)"] le show ?thesis
      by (simp add: Let_def st_simps)
  next
    case (Some h)
    have "feeRecalcs (st (step cfg s e)) \<le> feeBudget (st (step cfg s e)) es"
      by (simp add: feeBudget_def)
    with Some le show ?thesis
      by (simp add: Let_def)
  qed
qed

lemma trade_budget:
  assumes "list_all nonZeroOrderId es" and "buyReplies es \<le> 1"
  shows "feeRecalcs (st (trade cfg es)) \<le> 1"
proof -
  let ?r = "placeEntry cfg (initialState cfg)"
  have b: "feeBudget (st ?r) es \<le> 1"
    using assms(2) by (simp add: feeBudget_def initialState_def fee_simps)
  show ?thesis
  proof (cases "halted ?r")
    case None
    with run_budget [OF assms(1), of cfg "st ?r"] b show ?thesis
      by (simp add: trade_def Let_def st_simps)
  next
    case (Some h)
    then show ?thesis
      by (simp add: trade_def Let_def initialState_def fee_simps)
  qed
qed

text \<open>Two fills reported for the same entry order: the second one finds no entry order.\<close>

lemma two_fills_st:
  assumes "orderId \<noteq> 0" and "buyOrderId s = orderId"
  shows "st (run cfg s [UserData orderId ''FILLED'' a, UserData orderId ''FILLED'' b]) =
           calculateStopAndTargetAmounts cfg a (s\<lparr>buyOrderId := 0\<rparr>)"
proof -
  let ?s1 = "calculateStopAndTargetAmounts cfg a (s\<lparr>buyOrderId := 0\<rparr>)"
  have first: "step cfg s (UserData orderId ''FILLED'' a) = buyFilled cfg s a"
    using assms by (simp add: step_def userDataHandler_def checkOrderFilled_def)
  have s1: "st (buyFilled cfg s a) = ?s1"
    by (rule buyFilled_st)
  have b0: "buyOrderId ?s1 = 0"
    by (simp add: calculateStopAndTargetAmounts_def)
  have second: "st (step cfg ?s1 (UserData orderId ''FILLED'' b)) = ?s1"
    using assms(1) b0
    by (simp add: step_def userDataHandler_def checkOrderFilled_def sellFilled_def st_simps)
  show ?thesis
  proof (cases "halted (buyFilled cfg s a)")
    case (Some h)
    with first s1 show ?thesis by (simp add: Let_def)
  next
    case None
    with first s1 second show ?thesis
      by (simp add: Let_def st_simps split: option.splits)
  qed
qed

text \<open>
  Claim C2: over a whole trade the fee recalculation runs once at most, whatever events
  arrive in whatever order (the exchange's order ids are not 0, and the one buy request has
  one response at most). Two fills reported for the same entry order adjust the amounts
  once, with the fee asset of the first: the first fill zeroes the entry order id, and the
  second finds nothing to do. The price ticks, the cancel responses and the sell responses,
  where the quantities are rebalanced, never run the recalculation: a cancel response
  leaves the target quantity as it is and the stop quantity as it is, or less or more by
  the target quantity.
\<close>

theorem fee_recalculation_at_most_once:
  assumes "list_all nonZeroOrderId es" and "buyReplies es \<le> 1"
    and "orderId \<noteq> 0" and "buyOrderId s = orderId"
  shows "feeRecalcs (st (trade cfg es)) \<le> 1
     \<and> st (run cfg s [UserData orderId ''FILLED'' a, UserData orderId ''FILLED'' b]) =
         s\<lparr>stopSellAmount := calculateSellAmount cfg a (stopSellAmount s),
           targetSellAmount := calculateSellAmount cfg a (targetSellAmount s),
           buyOrderId := 0, feeRecalcs := Suc (feeRecalcs s)\<rparr>
     \<and> feeRecalcs (st (tradesHandler cfg s' price)) = feeRecalcs s'
     \<and> feeRecalcs (st (sellComplete cfg s' r')) = feeRecalcs s'
     \<and> feeRecalcs (st (cancelCallback cfg rl s' r)) = feeRecalcs s'
     \<and> targetSellAmount (st (cancelCallback cfg rl s' r)) = targetSellAmount s'
     \<and> stopSellAmount (st (cancelCallback cfg rl s' r))
         \<in> {stopSellAmount s', stopSellAmount s' - targetSellAmount s',
            stopSellAmount s' + targetSellAmount s'}"
proof (intro conjI)
  show "feeRecalcs (st (trade cfg es)) \<le> 1"
    using assms(1,2) by (rule trade_budget)
  show "st (run cfg s [UserData orderId ''FILLED'' a, UserData orderId ''FILLED'' b]) =
         s\<lparr>stopSellAmount := calculateSellAmount cfg a (stopSellAmount s),
           targetSellAmount := calculateSellAmount cfg a (targetSellAmount s),
           buyOrderId := 0, feeRecalcs := Suc (feeRecalcs s)\<rparr>"
    using two_fills_st [OF assms(3,4), of cfg a b]
    by (simp add: calculateStopAndTargetAmounts_def)
  show "targetSellAmount (st (cancelCallback cfg rl s' r)) = targetSellAmount s'"
    by (simp add: cancelCallback_def placeTargetOrder_def Let_def st_simps
        split: reply.splits role.splits option.splits)
  show "stopSellAmount (st (cancelCallback cfg rl s' r))
         \<in> {stopSellAmount s', stopSellAmount s' - targetSellAmount s',
            stopSellAmount s' + targetSellAmount s'}"
    by (simp add: cancelCallback_def placeTargetOrder_def Let_def st_simps
        split: reply.splits role.splits option.splits)
qed (simp_all add: fee_simps)

text \<open>
  The entry of the sample trade, with its fill reported twice and the fee in BTC: one
  recalculation, 10 and 4 become 9.99 and 3.996.
\<close>

theorem fee_recalculation_witness:
  "list_all nonZeroOrderId entryEvents \<and> buyReplies entryEvents \<le> 1
   \<and> buyOrderId entryResting = 7
   \<and> feeRecalcs (st (trade exampleConfig entryEvents)) \<le> 1
   \<and> st (run exampleConfig entryResting
            [UserData 7 ''FILLED'' ''BTC'', UserData 7 ''FILLED'' ''BTC'']) =
        entryResting\<lparr>stopSellAmount := 999 / 100, targetSellAmount := 999 / 250,
          buyOrderId := 0, feeRecalcs := 1\<rparr>"
proof -
  have a: "list_all nonZeroOrderId entryEvents" and b: "buyReplies entryEvents \<le> 1"
    by (simp_all add: entryEvents_def)
  have c: "(7::nat) \<noteq> 0" by simp
  have d: "buyOrderId entryResting = 7"
    by (simp add: entryResting_def)
  have e: "calculateSellAmount exampleConfig ''BTC'' (stopSellAmount entryResting) = 999 / 100"
    and f: "calculateSellAmount exampleConfig ''BTC'' (targetSellAmount entryResting) = 999 / 250"
    and g: "feeRecalcs entryResting = 0"
    by (simp_all add: calculateSellAmount_def NON_BNB_TRADING_FEE_def entryResting_def
        initialState_def exampleConfig_def)
  from fee_recalculation_at_most_once [OF a b c d, of exampleConfig "''BTC''" "''BTC''"]
    a b d e f g
  show ?thesis by simp
qed

section \<open>Scale-out: the split and the merge of the quantities\<close>

text \<open>
  The split of \<^verbatim>\<open>placeTargetOrder\<close> takes the target quantity off the stop quantity, and
  the two legs add up to the stop quantity of before.
\<close>

lemma split_conserves:
  assumes "stopPrice cfg \<noteq> None" and "targetPrice cfg \<noteq> None"
    and "targetSellAmount s \<noteq> stopSellAmount s"
  shows "stopSellAmount (st (placeTargetOrder cfg s)) = stopSellAmount s - targetSellAmount s
     \<and> targetSellAmount (st (placeTargetOrder cfg s)) = targetSellAmount s"
  using assms by (auto simp add: placeTargetOrder_def st_simps)

text \<open>The merge of the target's cancel callback adds it back when the legs differ.\<close>

lemma merge_adds_back:
  assumes "targetSellAmount s \<noteq> stopSellAmount s"
  shows "stopSellAmount (st (cancelCallback cfg TARGET s (Success ()))) =
           stopSellAmount s + targetSellAmount s"
  using assms by (simp add: cancelCallback_def Let_def st_simps)

text \<open>
  A split and then a merge give the stop quantity back, unless the split was into two
  equal legs: the merge then takes the equal legs for a trade without scale-out.
\<close>

lemma split_merge_round_trip:
  assumes "stopPrice cfg \<noteq> None" and "targetPrice cfg \<noteq> None"
    and "targetSellAmount s \<noteq> stopSellAmount s"
    and "stopSellAmount s \<noteq> 2 * targetSellAmount s"
  shows "stopSellAmount (st (cancelCallback cfg TARGET (st (placeTargetOrder cfg s)) (Success ())))
           = stopSellAmount s"
proof -
  let ?s1 = "st (placeTargetOrder cfg s)"
  from split_conserves [OF assms(1-3)]
  have s: "stopSellAmount ?s1 = stopSellAmount s - targetSellAmount s"
    and t: "targetSellAmount ?s1 = targetSellAmount s"
    by simp_all
  from assms(4) s t have "targetSellAmount ?s1 \<noteq> stopSellAmount ?s1"
    by simp
  from merge_adds_back [OF this, of cfg] s t show ?thesis
    by simp
qed

text \<open>
  Claim C4: when the target leg is placed with a stop price set and the stop quantity
  differs from the target quantity, the target order is placed, the stop quantity is
  reduced by exactly the target quantity and the stop order is placed for what is left, so
  that the two legs add up to the stop quantity of before. When the cancellation of the
  target order succeeds and the quantities of the two legs differ, the target quantity is
  added back to the stop quantity and the stop order is placed for the sum. A split followed
  by such a merge of unequal legs gives back the stop quantity of before the split.
\<close>

theorem scale_out_split_and_merge:
  assumes "stopPrice cfg = Some sp" and "targetPrice cfg = Some tp"
    and "stopSellAmount s \<noteq> targetSellAmount s"
  shows "placeTargetOrder cfg s =
           proceed (s\<lparr>stopSellAmount := stopSellAmount s - targetSellAmount s\<rparr>)
             [Sell (targetSellAmount s) tp None ''LIMIT'',
              Sell (stopSellAmount s - targetSellAmount s)
                (case limitPrice cfg of Some l \<Rightarrow> l | None \<Rightarrow> sp) (Some sp)
                ''STOP_LOSS_LIMIT'']
     \<and> stopSellAmount (st (placeTargetOrder cfg s)) + targetSellAmount (st (placeTargetOrder cfg s))
         = stopSellAmount s
     \<and> (targetSellAmount s' \<noteq> stopSellAmount s' \<longrightarrow>
          cancelCallback cfg TARGET s' (Success ()) =
            proceed (s'\<lparr>isCancelling := False, targetOrderId := 0,
                       stopSellAmount := stopSellAmount s' + targetSellAmount s'\<rparr>)
              [Sell (stopSellAmount s' + targetSellAmount s')
                 (case limitPrice cfg of Some l \<Rightarrow> l | None \<Rightarrow> sp) (Some sp)
                 ''STOP_LOSS_LIMIT''])
     \<and> (targetSellAmount (st (placeTargetOrder cfg s))
            \<noteq> stopSellAmount (st (placeTargetOrder cfg s)) \<longrightarrow>
          stopSellAmount
            (st (cancelCallback cfg TARGET (st (placeTargetOrder cfg s)) (Success ())))
            = stopSellAmount s)"
proof (intro conjI impI)
  show split: "placeTargetOrder cfg s =
           proceed (s\<lparr>stopSellAmount := stopSellAmount s - targetSellAmount s\<rparr>)
             [Sell (targetSellAmount s) tp None ''LIMIT'',
              Sell (stopSellAmount s - targetSellAmount s)
                (case limitPrice cfg of Some l \<Rightarrow> l | None \<Rightarrow> sp) (Some sp)
                ''STOP_LOSS_LIMIT'']"
    using assms by (auto simp add: placeTargetOrder_def placeStopOrder_def after_def proceed_def)
  show "stopSellAmount (st (placeTargetOrder cfg s)) + targetSellAmount (st (placeTargetOrder cfg s))
         = stopSellAmount s"
    by (simp add: split st_simps)
  {
    assume "targetSellAmount s' \<noteq> stopSellAmount s'"
    then show "cancelCallback cfg TARGET s' (Success ()) =
            proceed (s'\<lparr>isCancelling := False, targetOrderId := 0,
                       stopSellAmount := stopSellAmount s' + targetSellAmount s'\<rparr>)
              [Sell (stopSellAmount s' + targetSellAmount s')
                 (case limitPrice cfg of Some l \<Rightarrow> l | None \<Rightarrow> sp) (Some sp)
                 ''STOP_LOSS_LIMIT'']"
      using assms(1) by (simp add: cancelCallback_def placeStopOrder_def Let_def)
  }
  {
    assume "targetSellAmount (st (placeTargetOrder cfg s))
              \<noteq> stopSellAmount (st (placeTargetOrder cfg s))"
    from merge_adds_back [OF this, of cfg]
    show "stopSellAmount
            (st (cancelCallback cfg TARGET (st (placeTargetOrder cfg s)) (Success ())))
            = stopSellAmount s"
      by (simp add: split st_simps)
  }
qed

text \<open>
  The sample trade, 10 with a scale-out of 4: the split leaves a stop of 6 beside the
  target of 4, and the merge makes the stop 10 again.
\<close>

theorem scale_out_witness:
  "stopSellAmount (initialState exampleConfig) = 10
   \<and> placeTargetOrder exampleConfig (initialState exampleConfig) =
       proceed ((initialState exampleConfig)\<lparr>stopSellAmount := 6\<rparr>)
         [Sell 4 (3 / 1000) None ''LIMIT'',
          Sell 6 (1 / 1000) (Some (1 / 1000)) ''STOP_LOSS_LIMIT'']
   \<and> stopSellAmount
        (st (cancelCallback exampleConfig TARGET
               (st (placeTargetOrder exampleConfig (initialState exampleConfig)))
               (Success ()))) = 10"
proof -
  have a: "stopPrice exampleConfig = Some (1 / 1000)"
    and b: "targetPrice exampleConfig = Some (3 / 1000)"
    and l: "limitPrice exampleConfig = None"
    by (simp_all add: exampleConfig_def)
  have s: "stopSellAmount (initialState exampleConfig) = 10"
    and t: "targetSellAmount (initialState exampleConfig) = 4"
    by (simp_all add: initialState_def exampleConfig_def)
  from s t have c: "stopSellAmount (initialState exampleConfig)
                      \<noteq> targetSellAmount (initialState exampleConfig)"
    by simp
  from scale_out_split_and_merge [OF a b c] l s t
  show ?thesis by (simp add: st_simps)
qed

text \<open>
  The merge compares the quantities as they are when the target is cancelled. After a
  split into two equal legs (10 with a scale-out of 5) it finds them equal and leaves the
  stop quantity at 5; in the sample trade the stop order of the split, for the other 5, is
  not cancelled.
\<close>

lemma even_split_not_merged:
  "stopSellAmount (initialState halfConfig) = 10
   \<and> targetSellAmount (initialState halfConfig) = 5
   \<and> stopSellAmount (st (placeTargetOrder halfConfig (initialState halfConfig))) = 5
   \<and> stopSellAmount
        (st (cancelCallback halfConfig TARGET
               (st (placeTargetOrder halfConfig (initialState halfConfig))) (Success ()))) = 5
   \<and> stopSellAmount (st (trade halfConfig halfEvents)) = 5
   \<and> effs (trade halfConfig halfEvents) =
        [Sell 10 (1 / 1000) (Some (1 / 1000)) ''STOP_LOSS_LIMIT'',
         SendMessage ''BNBBTC stopped out'', Cancel STOP 11,
         Sell 5 (3 / 1000) None ''LIMIT'',
         Sell 5 (1 / 1000) (Some (1 / 1000)) ''STOP_LOSS_LIMIT'',
         SendMessage ''BNBBTC hit target price'', Cancel TARGET 12,
         Sell 5 (1 / 1000) (Some (1 / 1000)) ''STOP_LOSS_LIMIT'']"
  by (simp add: halfConfig_def halfEvents_def handler_defs)

section \<open>The entry decision\<close>

lemma placeStopOrder_no_entry: "\<not> list_ex isEntryRequest (effs (placeStopOrder cfg s))"
  by (simp add: placeStopOrder_def proceed_def stop_with_def split: option.splits)

lemma placeTargetOrder_no_entry: "\<not> list_ex isEntryRequest (effs (placeTargetOrder cfg s))"
  using placeStopOrder_no_entry
  by (simp add: placeTargetOrder_def proceed_def stop_with_def after_def split: option.splits)

lemma placeSellOrder_no_entry: "\<not> list_ex isEntryRequest (effs (placeSellOrder cfg s))"
  using placeStopOrder_no_entry placeTargetOrder_no_entry
  by (simp add: placeSellOrder_def stop_with_def)

text \<open>
  Claim C5: without a buy price the sell side is placed at once and nothing is bought; a buy
  price of 0 is a market buy of the amount; a positive buy price asks for the current price
  once, and on the answer a buy price above it is a stop-limit buy (trigger \<open>buyPrice\<close>,
  limit \<open>buyLimitPrice\<close> or else \<open>buyPrice\<close>) marked as a stop entry, a buy price below it
  a limit buy at the buy price marked as a limit entry. (A price that has passed
  normalisation is not negative.)
\<close>

theorem entry_decision:
  "(buyPrice cfg = None \<longrightarrow>
      placeEntry cfg s = placeSellOrder cfg s
      \<and> \<not> list_ex isEntryRequest (effs (placeEntry cfg s)))
   \<and> (buyPrice cfg = Some 0 \<longrightarrow> placeEntry cfg s = proceed s [MarketBuy (amount cfg)])
   \<and> (buyPrice cfg = Some b \<and> 0 < b \<longrightarrow>
        placeEntry cfg s = proceed s [Prices]
        \<and> (currentPrice < b \<longrightarrow>
             pricesCallback cfg s currentPrice =
               proceed (s\<lparr>isStopEntry := True\<rparr>)
                 [Buy (amount cfg) (case buyLimitPrice cfg of Some l \<Rightarrow> l | None \<Rightarrow> b) (Some b)
                    ''STOP_LOSS_LIMIT''])
        \<and> (b < currentPrice \<longrightarrow>
             pricesCallback cfg s currentPrice =
               proceed (s\<lparr>isLimitEntry := True\<rparr>) [Buy (amount cfg) b None ''LIMIT'']))"
  using placeSellOrder_no_entry [of cfg s]
  by (simp add: placeEntry_def pricesCallback_def)

text \<open>The sample trade buys at 0.002 with the market at 0.0018, and again at 0.0025.\<close>

theorem entry_decision_witness:
  "placeEntry exampleConfig (initialState exampleConfig) =
     proceed (initialState exampleConfig) [Prices]
   \<and> pricesCallback exampleConfig (initialState exampleConfig) (18 / 10000) =
       proceed ((initialState exampleConfig)\<lparr>isStopEntry := True\<rparr>)
         [Buy 10 (2 / 1000) (Some (2 / 1000)) ''STOP_LOSS_LIMIT'']
   \<and> pricesCallback exampleConfig (initialState exampleConfig) (25 / 10000) =
       proceed ((initialState exampleConfig)\<lparr>isLimitEntry := True\<rparr>)
         [Buy 10 (2 / 1000) None ''LIMIT'']"
proof -
  have b: "buyPrice exampleConfig = Some (2 / 1000)" and l: "buyLimitPrice exampleConfig = None"
    and a: "amount exampleConfig = 10"
    by (simp_all add: exampleConfig_def)
  from entry_decision [of exampleConfig "initialState exampleConfig" "2 / 1000" "18 / 10000"]
    entry_decision [of exampleConfig "initialState exampleConfig" "2 / 1000" "25 / 10000"]
    b l a
  show ?thesis by simp
qed

section \<open>The quantity check\<close>

lemma roundStep_le: "0 < stepSize \<Longrightarrow> roundStep qty stepSize \<le> qty"
proof -
  assume pos: "0 < stepSize"
  have "of_int \<lfloor>qty / stepSize\<rfloor> \<le> qty / stepSize"
    by (rule of_int_floor_le)
  with pos have "of_int \<lfloor>qty / stepSize\<rfloor> * stepSize \<le> qty / stepSize * stepSize"
    by (intro mult_right_mono) simp_all
  with pos have "of_int \<lfloor>qty / stepSize\<rfloor> * stepSize \<le> qty"
    by simp
  then show ?thesis by (simp add: roundStep_def)
qed

lemma roundStep_gt: "0 < stepSize \<Longrightarrow> qty < roundStep qty stepSize + stepSize"
proof -
  assume pos: "0 < stepSize"
  have "qty / stepSize < of_int \<lfloor>qty / stepSize\<rfloor> + 1"
    by linarith
  with pos have "qty / stepSize * stepSize < (of_int \<lfloor>qty / stepSize\<rfloor> + 1) * stepSize"
    by (intro mult_strict_right_mono) simp_all
  with pos have "qty < (of_int \<lfloor>qty / stepSize\<rfloor> + 1) * stepSize"
    by simp
  then show ?thesis by (simp add: roundStep_def algebra_simps)
qed

text \<open>Whatever the rounding of the library, a quantity below \<open>minQty\<close> is never returned.\<close>

lemma munge_and_check_quantity_by_min:
  "munge_and_check_quantity_by rounder stepSize minQty volume = Inr v \<Longrightarrow>
     minQty \<le> v \<and> v = rounder volume stepSize"
  by (auto simp add: munge_and_check_quantity_by_def Let_def split: if_splits)

lemma floor_sample: "\<lfloor>1239 / 10 :: rat\<rfloor> = 123"
  by (rule floor_unique) simp_all

text \<open>
  Claim C6: \<^verbatim>\<open>munge_and_check_quantity\<close> either fails (exit code 1, the ConformanceError
  of the specification), and then the rounded quantity is below \<open>minQty\<close>, or returns a
  quantity that is an integer multiple of \<open>stepSize\<close> and at least \<open>minQty\<close>; for a
  positive step size it is the input rounded down: at most the input and less than one
  step below it.
\<close>

theorem munge_and_check_quantity_conforms:
  "case munge_and_check_quantity stepSize minQty volume of
     Inl h \<Rightarrow> h = Exit 1 \<and> roundStep volume stepSize < minQty
   | Inr v \<Rightarrow> (\<exists>k::int. v = of_int k * stepSize) \<and> minQty \<le> v
       \<and> (0 < stepSize \<longrightarrow> v \<le> volume \<and> volume < v + stepSize)"
proof (cases "roundStep volume stepSize < minQty")
  case True
  then show ?thesis
    by (simp add: munge_and_check_quantity_def munge_and_check_quantity_by_def)
next
  case False
  have "\<exists>k::int. roundStep volume stepSize = of_int k * stepSize"
    unfolding roundStep_def by blast
  with False roundStep_le [of stepSize volume] roundStep_gt [of stepSize volume]
  show ?thesis
    by (simp add: munge_and_check_quantity_def munge_and_check_quantity_by_def)
qed

text \<open>A step of 0.01 and a minimum of 0.1: 1.239 becomes 1.23.\<close>

theorem munge_and_check_quantity_witness:
  "munge_and_check_quantity (1 / 100) (1 / 10) (1239 / 1000) = Inr (123 / 100)
   \<and> (\<exists>k::int. (123 / 100 :: rat) = of_int k * (1 / 100))
   \<and> (1 / 10 :: rat) \<le> 123 / 100 \<and> (123 / 100 :: rat) \<le> 1239 / 1000"
proof -
  have v: "munge_and_check_quantity (1 / 100) (1 / 10) (1239 / 1000) = Inr (123 / 100)"
    by (simp add: munge_and_check_quantity_def munge_and_check_quantity_by_def roundStep_def
        floor_sample)
  from munge_and_check_quantity_conforms [of "1 / 100" "1 / 10" "1239 / 1000"] v
  show ?thesis by simp
qed

section \<open>The cancel guard\<close>

text \<open>Orders are cancelled by the price handler and by nothing else.\<close>

lemma placeStopOrder_no_cancel: "Cancel rl i \<notin> set (effs (placeStopOrder cfg s))"
  by (simp add: placeStopOrder_def proceed_def stop_with_def split: option.splits)

lemma placeTargetOrder_no_cancel: "Cancel rl i \<notin> set (effs (placeTargetOrder cfg s))"
  using placeStopOrder_no_cancel
  by (simp add: placeTargetOrder_def proceed_def stop_with_def after_def split: option.splits)

lemma placeSellOrder_no_cancel: "Cancel rl i \<notin> set (effs (placeSellOrder cfg s))"
  using placeStopOrder_no_cancel placeTargetOrder_no_cancel
  by (simp add: placeSellOrder_def stop_with_def)

lemma userDataHandler_no_cancel:
  "Cancel rl i \<notin> set (effs (userDataHandler cfg s orderId orderStatus commissionAsset))"
  using placeSellOrder_no_cancel
  by (simp add: userDataHandler_def checkOrderFilled_def buyFilled_def sellFilled_def
      proceed_def stop_with_def)

lemma buyComplete_no_cancel: "Cancel rl i \<notin> set (effs (buyComplete cfg s r))"
  using placeSellOrder_no_cancel
  by (simp add: buyComplete_def proceed_def stop_with_def after_def
      split: reply.splits prod.splits)

lemma sellComplete_no_cancel: "Cancel rl i \<notin> set (effs (sellComplete cfg s r))"
  by (simp add: sellComplete_def proceed_def stop_with_def split: reply.splits prod.splits)

lemma pricesCallback_no_cancel: "Cancel rl i \<notin> set (effs (pricesCallback cfg s p))"
  by (simp add: pricesCallback_def proceed_def stop_with_def split: option.splits)

lemma cancelCallback_no_cancel: "Cancel rl i \<notin> set (effs (cancelCallback cfg rl' s r))"
  using placeStopOrder_no_cancel placeTargetOrder_no_cancel
  by (simp add: cancelCallback_def Let_def proceed_def stop_with_def
      split: reply.splits role.splits)

lemma tradesHandler_cancel:
  "Cancel rl i \<in> set (effs (tradesHandler cfg s price)) \<Longrightarrow>
     \<not> isCancelling s \<and> tradesHandler cfg s price = proceed (s\<lparr>isCancelling := True\<rparr>) [Cancel rl i]"
  by (auto simp add: tradesHandler_def proceed_def split: option.splits if_splits)

lemma step_cancel:
  assumes "Cancel rl i \<in> set (effs (step cfg s e))"
  shows "(\<exists>price. e = Trade price) \<and> \<not> isCancelling s \<and> isCancelling (st (step cfg s e))"
proof (cases e)
  case (Trade price)
  with assms have "Cancel rl i \<in> set (effs (tradesHandler cfg s price))"
    by (simp add: step_def)
  from tradesHandler_cancel [OF this] Trade show ?thesis
    by (simp add: step_def st_simps)
next
  case (UserData orderId orderStatus commissionAsset)
  with assms userDataHandler_no_cancel show ?thesis by (simp add: step_def)
next
  case (PricesReply p)
  with assms pricesCallback_no_cancel show ?thesis by (simp add: step_def)
next
  case (BuyReply r)
  with assms buyComplete_no_cancel show ?thesis by (simp add: step_def)
next
  case (SellReply r)
  with assms sellComplete_no_cancel show ?thesis by (simp add: step_def)
next
  case (CancelReply rl' r)
  with assms cancelCallback_no_cancel show ?thesis by (simp add: step_def)
qed

lemma cancelCallback_clears: "\<not> isCancelling (st (cancelCallback cfg rl s r))"
  by (simp add: cancelCallback_def placeTargetOrder_def Let_def st_simps
      split: reply.splits role.splits option.splits)

text \<open>
  Claim C7: an event that requests a cancellation is a price tick that found the guard
  clear and leaves it set; the callback of the request clears the guard, whether the
  request succeeded or failed; a failed request logs the error, does not end the process
  and changes nothing else, so that the state is the one before the tick and the same tick
  requests the same cancellation again.
\<close>

theorem cancel_guard_set_and_cleared:
  "(Cancel rl orderId \<in> set (effs (step cfg s e)) \<longrightarrow>
       (\<exists>price. e = Trade price) \<and> \<not> isCancelling s \<and> isCancelling (st (step cfg s e)))
   \<and> \<not> isCancelling (st (cancelCallback cfg rl s r))
   \<and> cancelCallback cfg rl s Failure =
        proceed (s\<lparr>isCancelling := False\<rparr>) [ConsoleError ''cancel error'']
   \<and> (Cancel rl orderId \<in> set (effs (tradesHandler cfg s price)) \<longrightarrow>
        st (cancelCallback cfg rl (st (tradesHandler cfg s price)) Failure) = s
        \<and> Cancel rl orderId
            \<in> set (effs (tradesHandler cfg
                  (st (cancelCallback cfg rl (st (tradesHandler cfg s price)) Failure)) price)))"
proof (intro conjI impI)
  assume "Cancel rl orderId \<in> set (effs (step cfg s e))"
  from step_cancel [OF this]
  show "\<exists>price. e = Trade price" and "\<not> isCancelling s" and "isCancelling (st (step cfg s e))"
    by simp_all
next
  show "\<not> isCancelling (st (cancelCallback cfg rl s r))"
    by (rule cancelCallback_clears)
next
  show "cancelCallback cfg rl s Failure =
          proceed (s\<lparr>isCancelling := False\<rparr>) [ConsoleError ''cancel error'']"
    by (simp add: cancelCallback_def)
next
  assume c: "Cancel rl orderId \<in> set (effs (tradesHandler cfg s price))"
  from tradesHandler_cancel [OF c]
  show restored: "st (cancelCallback cfg rl (st (tradesHandler cfg s price)) Failure) = s"
    by (simp add: cancelCallback_def st_simps)
  from c restored
  show "Cancel rl orderId
          \<in> set (effs (tradesHandler cfg
                (st (cancelCallback cfg rl (st (tradesHandler cfg s price)) Failure)) price))"
    by simp
qed

text \<open>
  The stop order of the sample trade and a tick at the target price: the stop order's
  cancellation is requested, fails, and is requested again by the same tick.
\<close>

theorem cancel_guard_witness:
  "Cancel STOP 11 \<in> set (effs (step exampleConfig stopResting (Trade (3 / 1000))))
   \<and> \<not> isCancelling stopResting
   \<and> isCancelling (st (step exampleConfig stopResting (Trade (3 / 1000))))
   \<and> st (cancelCallback exampleConfig STOP
           (st (tradesHandler exampleConfig stopResting (3 / 1000))) Failure) = stopResting
   \<and> Cancel STOP 11 \<in> set (effs (tradesHandler exampleConfig
        (st (cancelCallback exampleConfig STOP
               (st (tradesHandler exampleConfig stopResting (3 / 1000))) Failure)) (3 / 1000)))"
proof -
  have t: "tradesHandler exampleConfig stopResting (3 / 1000) =
             proceed (stopResting\<lparr>isCancelling := True\<rparr>) [Cancel STOP 11]"
    by (simp add: tradesHandler_def stopResting_def initialState_def exampleConfig_def
        isGreaterThanOrEqualTo_def)
  have a: "Cancel STOP 11 \<in> set (effs (step exampleConfig stopResting (Trade (3 / 1000))))"
    and b: "Cancel STOP 11 \<in> set (effs (tradesHandler exampleConfig stopResting (3 / 1000)))"
    by (simp_all add: step_def t proceed_def)
  from cancel_guard_set_and_cleared
    [of STOP 11 exampleConfig stopResting "Trade (3 / 1000)" "Failure" "3 / 1000"] a b
  show ?thesis by simp
qed

section \<open>The order stream and the sell responses\<close>

text \<open>
  Claim C8: an execution report for the entry, stop or target order with status NEW or
  PARTIALLY_FILLED changes nothing; with any status other than these two and FILLED
  (CANCELED, REJECTED, EXPIRED among them) it ends the process with exit code 1, and no
  later event is handled; with status FILLED it runs the fill handler of the order: the
  entry's when the id is the entry order's, else the sell orders'.
\<close>

theorem order_status_dispatch:
  assumes "orderId = buyOrderId s \<or> orderId = stopOrderId s \<or> orderId = targetOrderId s"
  shows "(orderStatus = ''NEW'' \<or> orderStatus = ''PARTIALLY_FILLED'' \<longrightarrow>
            userDataHandler cfg s orderId orderStatus commissionAsset = proceed s [])
     \<and> (orderStatus \<noteq> ''NEW'' \<and> orderStatus \<noteq> ''PARTIALLY_FILLED''
          \<and> orderStatus \<noteq> ''FILLED'' \<longrightarrow>
            userDataHandler cfg s orderId orderStatus commissionAsset = stop_with s [] (Exit 1)
            \<and> run cfg s (UserData orderId orderStatus commissionAsset # es) =
                stop_with s [] (Exit 1))
     \<and> (orderStatus = ''FILLED'' \<longrightarrow>
            userDataHandler cfg s orderId orderStatus commissionAsset =
              (if orderId = buyOrderId s then buyFilled cfg s commissionAsset
               else sellFilled s))"
  using assms
  by (auto simp add: userDataHandler_def checkOrderFilled_def step_def stop_with_def)

text \<open>The resting stop order of the sample trade is reported as expired, new and filled.\<close>

theorem order_status_witness:
  "userDataHandler exampleConfig stopResting 11 ''EXPIRED'' ''BTC'' =
     stop_with stopResting [] (Exit 1)
   \<and> run exampleConfig stopResting [UserData 11 ''EXPIRED'' ''BTC'', Trade (3 / 1000)] =
       stop_with stopResting [] (Exit 1)
   \<and> userDataHandler exampleConfig stopResting 11 ''NEW'' ''BTC'' = proceed stopResting []
   \<and> userDataHandler exampleConfig stopResting 11 ''FILLED'' ''BTC'' = sellFilled stopResting"
proof -
  have a: "11 = buyOrderId stopResting \<or> 11 = stopOrderId stopResting
             \<or> 11 = targetOrderId stopResting"
    and b: "11 \<noteq> buyOrderId stopResting"
    by (simp_all add: stopResting_def initialState_def)
  from order_status_dispatch [OF a, of "''EXPIRED''" exampleConfig "''BTC''" "[Trade (3 / 1000)]"]
    order_status_dispatch [OF a, of "''NEW''" exampleConfig "''BTC''" "[]"]
    order_status_dispatch [OF a, of "''FILLED''" exampleConfig "''BTC''" "[]"] b
  show ?thesis by simp
qed

text \<open>
  Claim C9: when the stop price or the target price is not set, the response to the sell
  order ends the process (exit code 0) with the state as it was: no order id is recorded,
  and no later event, the order's fill among them, is handled. No response changes the
  state then; with both prices set the response of a stop order is recorded in
  \<open>stopOrderId\<close> and the response of a limit order in \<open>targetOrderId\<close>.
\<close>

theorem single_sell_order_ends_process:
  "(stopPrice cfg = None \<or> targetPrice cfg = None \<longrightarrow>
      sellComplete cfg s (Success (orderId, type)) = stop_with s [] (Exit 0)
      \<and> run cfg s (SellReply (Success (orderId, type)) # es) = stop_with s [] (Exit 0)
      \<and> st (sellComplete cfg s r) = s)
   \<and> (stopPrice cfg \<noteq> None \<and> targetPrice cfg \<noteq> None \<longrightarrow>
        st (sellComplete cfg s (Success (orderId, ''STOP_LOSS_LIMIT''))) =
          s\<lparr>stopOrderId := orderId\<rparr>
        \<and> st (sellComplete cfg s (Success (orderId, ''LIMIT''))) = s\<lparr>targetOrderId := orderId\<rparr>)"
  by (auto simp add: sellComplete_def step_def stop_with_def st_simps split: reply.splits)

text \<open>A stop order alone: its response ends the process, and its fill is not looked at.\<close>

theorem single_sell_order_witness:
  "sellComplete stopOnlyConfig (initialState stopOnlyConfig) (Success (11, ''STOP_LOSS_LIMIT''))
     = stop_with (initialState stopOnlyConfig) [] (Exit 0)
   \<and> run stopOnlyConfig (initialState stopOnlyConfig)
       [SellReply (Success (11, ''STOP_LOSS_LIMIT'')), UserData 11 ''FILLED'' ''BTC'']
     = stop_with (initialState stopOnlyConfig) [] (Exit 0)
   \<and> st (sellComplete exampleConfig stopResting (Success (12, ''LIMIT''))) =
       stopResting\<lparr>targetOrderId := 12\<rparr>"
proof -
  have a: "targetPrice stopOnlyConfig = None"
    by (simp add: stopOnlyConfig_def)
  have b: "stopPrice exampleConfig \<noteq> None" and c: "targetPrice exampleConfig \<noteq> None"
    by (simp_all add: exampleConfig_def)
  from single_sell_order_ends_process
      [of stopOnlyConfig "initialState stopOnlyConfig" 11 "''STOP_LOSS_LIMIT''"
        "[UserData 11 ''FILLED'' ''BTC'']"]
    single_sell_order_ends_process [of exampleConfig stopResting 12] a b c
  show ?thesis by simp
qed

text \<open>
  Claim C10: a buy price equal to the current price is a limit entry, a limit buy at the
  buy price; the stop entry is chosen exactly when the current price is strictly below the
  buy price.
\<close>

theorem equal_price_is_limit_entry:
  assumes "buyPrice cfg = Some b"
  shows "pricesCallback cfg s b =
           proceed (s\<lparr>isLimitEntry := True\<rparr>) [Buy (amount cfg) b None ''LIMIT'']
     \<and> (pricesCallback cfg s currentPrice =
          proceed (s\<lparr>isStopEntry := True\<rparr>)
            [Buy (amount cfg) (case buyLimitPrice cfg of Some l \<Rightarrow> l | None \<Rightarrow> b) (Some b)
               ''STOP_LOSS_LIMIT'']) = (currentPrice < b)"
  using assms by (simp add: pricesCallback_def proceed_def)

text \<open>The sample trade with the market at its buy price of 0.002.\<close>

theorem equal_price_witness:
  "pricesCallback exampleConfig (initialState exampleConfig) (2 / 1000) =
     proceed ((initialState exampleConfig)\<lparr>isLimitEntry := True\<rparr>)
       [Buy 10 (2 / 1000) None ''LIMIT'']"
proof -
  have b: "buyPrice exampleConfig = Some (2 / 1000)" and a: "amount exampleConfig = 10"
    by (simp_all add: exampleConfig_def)
  from equal_price_is_limit_entry [OF b, of "initialState exampleConfig"] a
  show ?thesis by simp
qed

end
